theory Spec2Isabelle
  imports Main
begin

text \<open>
  The connection and session layer of the Z-Wave JS server, \<^verbatim>\<open>src/lib/server.ts\<close>:
  the session (class \<^verbatim>\<open>Client\<close>) with its message handling, and the registry (class
  \<^verbatim>\<open>ClientsController\<close>) with its heartbeat, its coalesced cleanup and its logging
  forwarder; and the types of the incoming controller messages,
  \<^verbatim>\<open>src/lib/controller/incoming_message.ts\<close>. Every method is a function from the
  state before the call to the state after it; what a method throws is a value.
\<close>

section \<open>Wire values and the transport\<close>

text \<open>
  Values that cross the boundary of \<^verbatim>\<open>src/lib/server.ts\<close> (log configurations, state
  dumps, handler results, events) are JSON values.
\<close>

datatype json =
    JNull
  | JBool bool
  | JNumber int
  | JString string
  | JArray "json list"
  | JObject "(string \<times> json) list"

text \<open>
  Modelled from the spec: the members of \<^verbatim>\<open>ErrorCode\<close> that \<^verbatim>\<open>server.ts\<close> names
  (\<^verbatim>\<open>error.ts\<close> is not among the sources). Every other code a handler may raise is
  \<open>ErrorCode_other\<close>.
\<close>

datatype ErrorCode =
    ErrorCode_unknownError
  | ErrorCode_unknownCommand
  | ErrorCode_schemaIncompatible
  | ErrorCode_zwaveError
  | ErrorCode_other string

text \<open>
  The fields a \<^verbatim>\<open>BaseError\<close> keeps besides \<^verbatim>\<open>errorCode\<close>, \<^verbatim>\<open>name\<close>,
  \<^verbatim>\<open>message\<close> and \<^verbatim>\<open>stack\<close>: the rest pattern
  \<^verbatim>\<open>const { errorCode, name, message, stack, ...args } = err\<close> of the catch block.
  The two errors raised by \<^verbatim>\<open>server.ts\<close> itself keep their constructor argument.
\<close>

datatype ErrorArgs =
    SchemaArgs int
  | CommandArgs string
  | Args json

datatype BaseError =
    SchemaIncompatibleError int
  | UnknownCommandError string
  | HandlerError ErrorCode json

fun errorCode :: "BaseError \<Rightarrow> ErrorCode" where
  "errorCode (SchemaIncompatibleError v) = ErrorCode_schemaIncompatible"
| "errorCode (UnknownCommandError cmd) = ErrorCode_unknownCommand"
| "errorCode (HandlerError code rest) = code"

fun args :: "BaseError \<Rightarrow> ErrorArgs" where
  "args (SchemaIncompatibleError v) = SchemaArgs v"
| "args (UnknownCommandError cmd) = CommandArgs cmd"
| "args (HandlerError code rest) = Args rest"

text \<open>
  What a \<^verbatim>\<open>throw\<close> inside the \<^verbatim>\<open>try\<close> block of \<^verbatim>\<open>receiveMessage\<close> can carry, as
  the catch block tells them apart: an instance of \<^verbatim>\<open>BaseError\<close>, an instance of
  \<^verbatim>\<open>ZWaveError\<close> (code and message), or anything else (a \<^verbatim>\<open>TypeError\<close>, say).
\<close>

datatype thrown =
    BaseError BaseError
  | ZWaveError int string
  | UnexpectedError

text \<open>
  The \<^verbatim>\<open>result\<close> field of a success reply. \<open>ResultOfPrototypeMember k\<close> is the value
  returned by the member \<open>k\<close> of \<^verbatim>\<open>Object.prototype\<close> when it is called on the handler
  table with the message as argument (see \<open>instanceHandlers\<close> below).
\<close>

datatype ResultPayload =
    Result json
  | ResultOfPrototypeMember string

text \<open>
  The outgoing messages by their shape: the version greeting (driver version, server
  version, home id and the two schema bounds), the three result replies (the third is
  the one with \<^verbatim>\<open>errorCode: ErrorCode.zwaveError\<close>) and the event.
\<close>

datatype OutgoingMessage =
    VersionMessage string string "int option" int int
  | ResultMessageSuccess string ResultPayload
  | ResultMessageError string ErrorCode ErrorArgs
  | ResultMessageZWaveError string int string
  | EventMessage json

text \<open>
  The socket of the \<^verbatim>\<open>ws\<close> library, as far as \<^verbatim>\<open>server.ts\<close> drives it:
  \<open>sent\<close> lists the calls of \<^verbatim>\<open>socket.send\<close> in order, each with its
  \<^verbatim>\<open>compress\<close> option; \<open>pings\<close> and \<open>closeCalls\<close> count the calls of
  \<^verbatim>\<open>socket.ping\<close> and \<^verbatim>\<open>socket.close\<close>. A call of \<^verbatim>\<open>close\<close> on a socket that
  is not yet closed starts the closing handshake (\<open>CLOSING\<close>).
\<close>

datatype readyState = CONNECTING | OPEN | CLOSING | CLOSED

record WebSocket =
  readyState :: readyState
  sent :: "(OutgoingMessage \<times> bool) list"
  pings :: nat
  closeCalls :: nat

definition socket_send :: "OutgoingMessage \<Rightarrow> bool \<Rightarrow> WebSocket \<Rightarrow> WebSocket" where
  "socket_send d compress s = s\<lparr>sent := sent s @ [(d, compress)]\<rparr>"

definition socket_ping :: "WebSocket \<Rightarrow> WebSocket" where
  "socket_ping s = s\<lparr>pings := Suc (pings s)\<rparr>"

definition socket_close :: "WebSocket \<Rightarrow> WebSocket" where
  "socket_close s =
     s\<lparr>readyState := (if readyState s = CLOSED then CLOSED else CLOSING),
        closeCalls := Suc (closeCalls s)\<rparr>"

section \<open>Incoming messages\<close>

text \<open>
  The parsed message, at its declared type \<^verbatim>\<open>IncomingMessage\<close>: an object with a
  \<^verbatim>\<open>messageId\<close> and a \<^verbatim>\<open>command\<close>, both strings, and the fields that
  \<^verbatim>\<open>receiveMessage\<close> reads for the built-in commands (\<^verbatim>\<open>schemaVersion\<close>, a number,
  kept as an integer; \<^verbatim>\<open>additionalUserAgentComponents\<close>, optional; \<^verbatim>\<open>config\<close>).
  Whatever else the message carries is \<open>msg_payload\<close>, which only the handler families
  read. A field that a command does not declare is never read on that command.
\<close>

record IncomingMessage =
  msg_messageId :: string
  msg_command :: string
  msg_schemaVersion :: int
  msg_additionalUserAgentComponents :: "(string \<times> string) list option"
  msg_config :: json
  msg_payload :: json

text \<open>
  What \<^verbatim>\<open>JSON.parse\<close> returns when it does not throw. The text \<^verbatim>\<open>null\<close> parses
  too, to the value \<^verbatim>\<open>null\<close>, and every property read on it (\<^verbatim>\<open>msg.command\<close>,
  \<^verbatim>\<open>msg.messageId\<close>) throws a \<^verbatim>\<open>TypeError\<close>. The other values are objects as
  \<^verbatim>\<open>IncomingMessage\<close> declares them.
\<close>

datatype parsed = ParsedNull | ParsedObject IncomingMessage

text \<open>
  Modelled from the spec: the string values of \<^verbatim>\<open>ServerCommand\<close> (\<^verbatim>\<open>command.ts\<close> is
  not among the sources), as section 6 of the specification lists the built-in commands.
\<close>

definition ServerCommand_initialize :: string where
  "ServerCommand_initialize = ''initialize''"

definition ServerCommand_setApiSchema :: string where
  "ServerCommand_setApiSchema = ''setApiSchema''"

definition ServerCommand_startListening :: string where
  "ServerCommand_startListening = ''startListening''"

definition ServerCommand_updateLogConfig :: string where
  "ServerCommand_updateLogConfig = ''updateLogConfig''"

definition ServerCommand_getLogConfig :: string where
  "ServerCommand_getLogConfig = ''getLogConfig''"

text \<open>
  Modelled from the spec: the members of \<^verbatim>\<open>Instance\<close> and their string values
  (\<^verbatim>\<open>instance.ts\<close> is not among the sources); \<^verbatim>\<open>server.ts\<close> names the seven members
  as the keys of \<^verbatim>\<open>instanceHandlers\<close>.
\<close>

datatype Instance =
    Instance_controller
  | Instance_driver
  | Instance_node
  | Instance_multicast_group
  | Instance_broadcast_node
  | Instance_endpoint
  | Instance_utils

definition Instance_values :: "(string \<times> Instance) list" where
  "Instance_values =
     [(''controller'', Instance_controller),
      (''driver'', Instance_driver),
      (''node'', Instance_node),
      (''multicast_group'', Instance_multicast_group),
      (''broadcast_node'', Instance_broadcast_node),
      (''endpoint'', Instance_endpoint),
      (''utils'', Instance_utils)]"

section \<open>The session: class Client\<close>

record Client =
  receiveEvents :: bool
  outstandingPing :: bool
  schemaVersion :: int
  receiveLogs :: bool
  additionalUserAgentComponents :: "(string \<times> string) list option"
  socket :: WebSocket

text \<open>
  What \<^verbatim>\<open>server.ts\<close> imports and calls, as parameters: the two schema bounds of
  \<^verbatim>\<open>const.ts\<close>, \<^verbatim>\<open>JSON.parse\<close> (\<open>None\<close> when it throws), the dumps of
  \<^verbatim>\<open>state.ts\<close>, \<^verbatim>\<open>driver.updateLogConfig\<close>, the handler families and the three
  values of the version greeting. \<open>'d\<close> is the state of the shared driver. A call that
  can throw returns \<open>Inl\<close> of what it throws.

  Modelled from the spec: the handler families (their \<^verbatim>\<open>message_handler.ts\<close> files are
  not among the sources). Section 6 gives their boundary,
  \<^verbatim>\<open>handle(message, sharedController, sessionRegistry?, session?)\<close> with a result or a
  throw, and \<open>handle\<close> is that: the settled outcome of the call and the driver state it
  leaves. \<^verbatim>\<open>server.ts\<close> also passes a handler the session and the registry; what a
  handler does to them through these references (setting \<^verbatim>\<open>receiveLogs\<close>, configuring
  the logging forwarder) is not in \<open>handle\<close>, and neither is the time the call takes
  to settle.
\<close>

record 'd externals =
  minSchemaVersion :: int
  maxSchemaVersion :: int
  JSON_parse :: "string \<Rightarrow> parsed option"
  dumpState :: "'d \<Rightarrow> int \<Rightarrow> thrown + json"
  dumpLogConfig :: "'d \<Rightarrow> int \<Rightarrow> thrown + json"
  updateLogConfig :: "json \<Rightarrow> 'd \<Rightarrow> thrown + 'd"
  handle :: "Instance \<Rightarrow> IncomingMessage \<Rightarrow> Client \<Rightarrow> 'd \<Rightarrow> (thrown + json) \<times> 'd"
  libVersion :: string
  version :: string
  homeId :: "'d \<Rightarrow> int option"

definition new_Client :: "'d externals \<Rightarrow> WebSocket \<Rightarrow> Client" where
  "new_Client env s =
     \<lparr>receiveEvents = False, outstandingPing = False,
      schemaVersion = minSchemaVersion env, receiveLogs = False,
      additionalUserAgentComponents = None, socket = s\<rparr>"

text \<open>The listener of the socket's \<^verbatim>\<open>pong\<close> event, registered by the constructor.\<close>

definition on_pong :: "Client \<Rightarrow> Client" where
  "on_pong c = c\<lparr>outstandingPing := False\<rparr>"

definition isConnected :: "Client \<Rightarrow> bool" where
  "isConnected c = (readyState (socket c) = OPEN)"

text \<open>
  \<^verbatim>\<open>setSchemaVersion\<close> assigns the field first and compares the field afterwards; the
  result pairs what it throws (if anything) with the session it leaves.
\<close>

definition setSchemaVersion :: "'d externals \<Rightarrow> int \<Rightarrow> Client \<Rightarrow> thrown option \<times> Client" where
  "setSchemaVersion env v c =
     (let c1 = c\<lparr>schemaVersion := v\<rparr> in
      if schemaVersion c1 < minSchemaVersion env \<or> schemaVersion c1 > maxSchemaVersion env
      then (Some (BaseError (SchemaIncompatibleError (schemaVersion c1))), c1)
      else (None, c1))"

definition sendData :: "OutgoingMessage \<Rightarrow> bool \<Rightarrow> Client \<Rightarrow> Client" where
  "sendData d compress c = c\<lparr>socket := socket_send d compress (socket c)\<rparr>"

definition sendVersion :: "'d externals \<Rightarrow> 'd \<Rightarrow> Client \<Rightarrow> Client" where
  "sendVersion env d c =
     sendData (VersionMessage (libVersion env) (version env) (homeId env d)
                 (minSchemaVersion env) (maxSchemaVersion env)) False c"

definition sendResultSuccess :: "string \<Rightarrow> ResultPayload \<Rightarrow> bool \<Rightarrow> Client \<Rightarrow> Client" where
  "sendResultSuccess messageId r compress c =
     sendData (ResultMessageSuccess messageId r) compress c"

definition sendResultError :: "string \<Rightarrow> ErrorCode \<Rightarrow> ErrorArgs \<Rightarrow> Client \<Rightarrow> Client" where
  "sendResultError messageId code a c =
     sendData (ResultMessageError messageId code a) False c"

definition sendResultZWaveError :: "string \<Rightarrow> int \<Rightarrow> string \<Rightarrow> Client \<Rightarrow> Client" where
  "sendResultZWaveError messageId zjsErrorCode message c =
     sendData (ResultMessageZWaveError messageId zjsErrorCode message) False c"

definition sendEvent :: "json \<Rightarrow> Client \<Rightarrow> Client" where
  "sendEvent event c = sendData (EventMessage event) False c"

definition disconnect :: "Client \<Rightarrow> Client" where
  "disconnect c = c\<lparr>socket := socket_close (socket c)\<rparr>"

definition checkAlive :: "Client \<Rightarrow> Client" where
  "checkAlive c =
     (if outstandingPing c then disconnect c
      else (c\<lparr>outstandingPing := True\<rparr>)\<lparr>socket := socket_ping (socket c)\<rparr>)"

subsection \<open>Namespace dispatch\<close>

text \<open>\<^verbatim>\<open>msg.command.split(".")[0]\<close>: the text before the first dot, all of it when
  there is none.\<close>

definition instance_of :: "string \<Rightarrow> string" where
  "instance_of cmd = takeWhile (\<lambda>ch. ch \<noteq> CHR ''.'') cmd"

text \<open>
  \<^verbatim>\<open>instanceHandlers\<close> is an object literal with the seven members of \<^verbatim>\<open>Instance\<close>
  as its own keys, and \<^verbatim>\<open>this.instanceHandlers[instance]\<close> is a property read: a key
  that is not an own key is looked up in the prototype of the literal,
  \<^verbatim>\<open>Object.prototype\<close>, before the read gives \<^verbatim>\<open>undefined\<close>. Every member of
  \<^verbatim>\<open>Object.prototype\<close> is truthy, so the test
  \<^verbatim>\<open>if (this.instanceHandlers[instance])\<close> passes for it and the member is called
  with the message. Three of the calls throw a \<^verbatim>\<open>TypeError\<close>: \<^verbatim>\<open>__proto__\<close> is
  an object, not a function, and \<^verbatim>\<open>__defineGetter__\<close> and \<^verbatim>\<open>__defineSetter__\<close>
  reject the missing second argument. The other members return a value.
\<close>

definition Object_prototype_members :: "string list" where
  "Object_prototype_members =
     [''constructor'', ''__defineGetter__'', ''__defineSetter__'', ''hasOwnProperty'',
      ''__lookupGetter__'', ''__lookupSetter__'', ''isPrototypeOf'',
      ''propertyIsEnumerable'', ''toString'', ''valueOf'', ''__proto__'',
      ''toLocaleString'']"

datatype property = OwnHandler Instance | PrototypeMember string

definition instanceHandlers :: "string \<Rightarrow> property option" where
  "instanceHandlers key =
     (case map_of Instance_values key of
        Some i \<Rightarrow> Some (OwnHandler i)
      | None \<Rightarrow>
          if key \<in> set Object_prototype_members then Some (PrototypeMember key) else None)"

definition call_prototype_member :: "string \<Rightarrow> thrown + ResultPayload" where
  "call_prototype_member key =
     (if key \<in> set [''__proto__'', ''__defineGetter__'', ''__defineSetter__'']
      then Inl UnexpectedError
      else Inr (ResultOfPrototypeMember key))"

subsection \<open>receiveMessage\<close>

text \<open>
  The \<^verbatim>\<open>try\<close> block of \<^verbatim>\<open>receiveMessage\<close>, branch by branch in the order of the
  source. It returns what the block throws (\<open>None\<close> when it completes), the session and
  the driver state. The calls of the logger have no effect on either and are left out.
\<close>

definition try_block ::
  "'d externals \<Rightarrow> IncomingMessage \<Rightarrow> Client \<Rightarrow> 'd \<Rightarrow> thrown option \<times> Client \<times> 'd" where
  "try_block env msg c d =
     (if msg_command msg = ServerCommand_initialize then
        (case setSchemaVersion env (msg_schemaVersion msg) c of
           (Some e, c1) \<Rightarrow> (Some e, c1, d)
         | (None, c1) \<Rightarrow>
             (None,
              sendResultSuccess (msg_messageId msg) (Result (JObject [])) False
                (c1\<lparr>additionalUserAgentComponents :=
                      msg_additionalUserAgentComponents msg\<rparr>),
              d))
      else if msg_command msg = ServerCommand_setApiSchema then
        (case setSchemaVersion env (msg_schemaVersion msg) c of
           (Some e, c1) \<Rightarrow> (Some e, c1, d)
         | (None, c1) \<Rightarrow>
             (None, sendResultSuccess (msg_messageId msg) (Result (JObject [])) False c1, d))
      else if msg_command msg = ServerCommand_startListening then
        (case dumpState env d (schemaVersion c) of
           Inl e \<Rightarrow> (Some e, c, d)
         | Inr st \<Rightarrow>
             (let c1 = sendResultSuccess (msg_messageId msg)
                         (Result (JObject [(''state'', st)])) True c
              in (None, c1\<lparr>receiveEvents := True\<rparr>, d)))
      else if msg_command msg = ServerCommand_updateLogConfig then
        (case updateLogConfig env (msg_config msg) d of
           Inl e \<Rightarrow> (Some e, c, d)
         | Inr d1 \<Rightarrow>
             (None, sendResultSuccess (msg_messageId msg) (Result (JObject [])) False c, d1))
      else if msg_command msg = ServerCommand_getLogConfig then
        (case dumpLogConfig env d (schemaVersion c) of
           Inl e \<Rightarrow> (Some e, c, d)
         | Inr cfg \<Rightarrow>
             (None,
              sendResultSuccess (msg_messageId msg)
                (Result (JObject [(''config'', cfg)])) False c,
              d))
      else
        (case instanceHandlers (instance_of (msg_command msg)) of
           Some (OwnHandler i) \<Rightarrow>
             (case handle env i msg c d of
                (Inl e, d1) \<Rightarrow> (Some e, c, d1)
              | (Inr r, d1) \<Rightarrow>
                  (None, sendResultSuccess (msg_messageId msg) (Result r) False c, d1))
         | Some (PrototypeMember key) \<Rightarrow>
             (case call_prototype_member key of
                Inl e \<Rightarrow> (Some e, c, d)
              | Inr r \<Rightarrow> (None, sendResultSuccess (msg_messageId msg) r False c, d))
         | None \<Rightarrow> (Some (BaseError (UnknownCommandError (msg_command msg))), c, d)))"

text \<open>The \<^verbatim>\<open>catch\<close> block: one error reply, chosen by the class of what was thrown.\<close>

definition catch_block :: "IncomingMessage \<Rightarrow> thrown \<Rightarrow> Client \<Rightarrow> Client" where
  "catch_block msg err c =
     (case err of
        BaseError b \<Rightarrow> sendResultError (msg_messageId msg) (errorCode b) (args b) c
      | ZWaveError code message \<Rightarrow>
          sendResultZWaveError (msg_messageId msg) code message c
      | UnexpectedError \<Rightarrow>
          sendResultError (msg_messageId msg) ErrorCode_unknownError (Args (JObject [])) c)"

text \<open>
  \<^verbatim>\<open>receiveMessage\<close> is \<^verbatim>\<open>async\<close>: its result is a promise. The first component
  is what the promise is rejected with, \<open>None\<close> when it is fulfilled; the others are
  the session and the driver state.

  When the parsed value is \<^verbatim>\<open>null\<close>, the first read of the \<^verbatim>\<open>try\<close> block,
  \<^verbatim>\<open>msg.command\<close>, throws a \<^verbatim>\<open>TypeError\<close>. The \<^verbatim>\<open>catch\<close> block finds it
  neither a \<^verbatim>\<open>BaseError\<close> nor a \<^verbatim>\<open>ZWaveError\<close>, logs it and evaluates
  \<^verbatim>\<open>msg.messageId\<close> for the reply, which throws a \<^verbatim>\<open>TypeError\<close> again, now
  outside every \<^verbatim>\<open>try\<close>: nothing has been sent or closed, and the promise is rejected.
\<close>

definition receiveMessage ::
  "'d externals \<Rightarrow> string \<Rightarrow> Client \<Rightarrow> 'd \<Rightarrow> thrown option \<times> Client \<times> 'd" where
  "receiveMessage env data c d =
     (case JSON_parse env data of
        None \<Rightarrow> (None, c\<lparr>socket := socket_close (socket c)\<rparr>, d)
      | Some ParsedNull \<Rightarrow> (Some UnexpectedError, c, d)
      | Some (ParsedObject msg) \<Rightarrow>
          (case try_block env msg c d of
             (None, c1, d1) \<Rightarrow> (None, c1, d1)
           | (Some err, c1, d1) \<Rightarrow> (None, catch_block msg err c1, d1)))"

section \<open>The registry: class ClientsController\<close>

text \<open>
  \<open>pingInterval\<close> and \<open>eventForwarder\<close> say whether the timer and the forwarder have been
  created. \<open>loggingEventForwarder\<close> is \<open>None\<close> while the field is \<^verbatim>\<open>undefined\<close> and
  \<open>Some started\<close> afterwards. \<open>pendingCleanups\<close> counts the callbacks
  \<^verbatim>\<open>() => this.cleanupClients()\<close> that \<^verbatim>\<open>setTimeout\<close> has queued and the scheduler
  has not run yet.
\<close>

record 'd ClientsController =
  clients :: "Client list"
  driver :: 'd
  pingInterval :: bool
  eventForwarder :: bool
  cleanupScheduled :: bool
  loggingEventForwarder :: "bool option"
  pendingCleanups :: nat

definition new_ClientsController :: "'d \<Rightarrow> 'd ClientsController" where
  "new_ClientsController d =
     \<lparr>clients = [], driver = d, pingInterval = False, eventForwarder = False,
      cleanupScheduled = False, loggingEventForwarder = None, pendingCleanups = 0\<rparr>"

text \<open>
  The callback of \<^verbatim>\<open>setInterval\<close> in \<^verbatim>\<open>addSocket\<close>: the loop over
  \<^verbatim>\<open>this.clients\<close>, with \<^verbatim>\<open>newClients\<close> as its first accumulator. The sessions it
  disconnects leave the registry; the second accumulator keeps them as the loop left
  them.
\<close>

fun pingInterval_loop :: "Client list \<Rightarrow> Client list \<times> Client list \<Rightarrow> Client list \<times> Client list" where
  "pingInterval_loop [] acc = acc"
| "pingInterval_loop (client # rest) (newClients, dropped) =
     (if isConnected client
      then pingInterval_loop rest (newClients @ [client], dropped)
      else pingInterval_loop rest (newClients, dropped @ [disconnect client]))"

definition pingInterval_tick :: "'d ClientsController \<Rightarrow> 'd ClientsController" where
  "pingInterval_tick cc = cc\<lparr>clients := fst (pingInterval_loop (clients cc) ([], []))\<rparr>"

definition addSocket :: "'d externals \<Rightarrow> WebSocket \<Rightarrow> 'd ClientsController \<Rightarrow> 'd ClientsController" where
  "addSocket env s cc =
     (let client = sendVersion env (driver cc) (new_Client env s)
      in cc\<lparr>clients := clients cc @ [client], pingInterval := True, eventForwarder := True\<rparr>)"

definition loggingEventForwarderStarted :: "'d ClientsController \<Rightarrow> bool" where
  "loggingEventForwarderStarted cc = (loggingEventForwarder cc = Some True)"

text \<open>
  Modelled from the spec: \<^verbatim>\<open>LoggingEventForwarder\<close> (\<^verbatim>\<open>logging.ts\<close> is not among the
  sources) keeps a boolean running state, false when it is created, that \<^verbatim>\<open>start\<close>
  sets and \<^verbatim>\<open>stop\<close> clears.
\<close>

definition LoggingEventForwarder_start :: "bool option \<Rightarrow> bool option" where
  "LoggingEventForwarder_start f = (case f of None \<Rightarrow> None | Some started \<Rightarrow> Some True)"

definition LoggingEventForwarder_stop :: "bool option \<Rightarrow> bool option" where
  "LoggingEventForwarder_stop f = (case f of None \<Rightarrow> None | Some started \<Rightarrow> Some False)"

definition configureLoggingEventForwarder :: "'d ClientsController \<Rightarrow> 'd ClientsController" where
  "configureLoggingEventForwarder cc =
     (let cc1 = (if loggingEventForwarder cc = None
                 then cc\<lparr>loggingEventForwarder := Some False\<rparr> else cc)
      in if \<not> loggingEventForwarderStarted cc1
         then cc1\<lparr>loggingEventForwarder :=
                    LoggingEventForwarder_start (loggingEventForwarder cc1)\<rparr>
         else cc1)"

definition cleanupLoggingEventForwarder :: "'d ClientsController \<Rightarrow> 'd ClientsController" where
  "cleanupLoggingEventForwarder cc =
     (if length (filter receiveLogs (clients cc)) = 0 \<and> loggingEventForwarderStarted cc
      then cc\<lparr>loggingEventForwarder :=
                 LoggingEventForwarder_stop (loggingEventForwarder cc)\<rparr>
      else cc)"

definition scheduleClientCleanup :: "'d ClientsController \<Rightarrow> 'd ClientsController" where
  "scheduleClientCleanup cc =
     (if cleanupScheduled cc then cc
      else cc\<lparr>cleanupScheduled := True, pendingCleanups := Suc (pendingCleanups cc)\<rparr>)"

definition cleanupClients :: "'d ClientsController \<Rightarrow> 'd ClientsController" where
  "cleanupClients cc =
     cleanupLoggingEventForwarder
       (cc\<lparr>cleanupScheduled := False, clients := filter isConnected (clients cc)\<rparr>)"

definition ClientsController_disconnect :: "'d ClientsController \<Rightarrow> 'd ClientsController" where
  "ClientsController_disconnect cc =
     cleanupLoggingEventForwarder (cc\<lparr>pingInterval := False, clients := []\<rparr>)"

subsection \<open>What happens to a registry\<close>

text \<open>
  The single scheduler runs one callback at a time; each function below is one of them,
  on the session at position \<open>i\<close> of the registry where it concerns a session.
  \<open>on_message\<close> is the listener of the socket's \<^verbatim>\<open>message\<close> event, which calls
  \<^verbatim>\<open>receiveMessage\<close> and drops the promise;
  \<open>on_close\<close> is the listener of its \<^verbatim>\<open>close\<close> event, which the transport emits
  once the socket is \<open>CLOSED\<close> (a socket that has left the registry still notifies);
  \<open>run_timeout\<close> runs one queued cleanup callback, and is \<open>None\<close> when none is
  queued.
\<close>

definition on_message :: "'d externals \<Rightarrow> nat \<Rightarrow> string \<Rightarrow> 'd ClientsController \<Rightarrow> 'd ClientsController" where
  "on_message env i data cc =
     (if i < length (clients cc)
      then (case receiveMessage env data (clients cc ! i) (driver cc) of
              (rejection, c1, d1) \<Rightarrow> cc\<lparr>clients := (clients cc)[i := c1], driver := d1\<rparr>)
      else cc)"

definition transport_closed :: "Client \<Rightarrow> Client" where
  "transport_closed c = c\<lparr>socket := (socket c)\<lparr>readyState := CLOSED\<rparr>\<rparr>"

definition on_close :: "nat \<Rightarrow> 'd ClientsController \<Rightarrow> 'd ClientsController" where
  "on_close i cc =
     scheduleClientCleanup
       (if i < length (clients cc)
        then cc\<lparr>clients := (clients cc)[i := transport_closed (clients cc ! i)]\<rparr>
        else cc)"

definition run_timeout :: "'d ClientsController \<Rightarrow> 'd ClientsController option" where
  "run_timeout cc =
     (if pendingCleanups cc = 0 then None
      else Some (cleanupClients (cc\<lparr>pendingCleanups := pendingCleanups cc - 1\<rparr>)))"

text \<open>
  Modelled from the spec: \<^verbatim>\<open>EventForwarder\<close> (\<^verbatim>\<open>forward.ts\<close> is not among the
  sources). Section 4.4: each domain event is delivered to every currently registered
  session with \<^verbatim>\<open>receiveEvents = true\<close>, in the order of the registry.
\<close>

definition forwardEvent :: "json \<Rightarrow> 'd ClientsController \<Rightarrow> 'd ClientsController" where
  "forwardEvent event cc =
     cc\<lparr>clients := map (\<lambda>c. if receiveEvents c then sendEvent event c else c) (clients cc)\<rparr>"

text \<open>
  Modelled from the spec: a session subscribes to the logs. The handler that does it is
  not among the sources; by sections 2, 3 and 4.5 the session's \<^verbatim>\<open>receiveLogs\<close>
  becomes true and the logging forwarder is configured, which starts it when it is not
  running (\<^verbatim>\<open>configureLoggingEventForwarder\<close> of \<^verbatim>\<open>server.ts\<close>).
\<close>

definition subscribe_logs :: "nat \<Rightarrow> 'd ClientsController \<Rightarrow> 'd ClientsController" where
  "subscribe_logs i cc =
     (if i < length (clients cc)
      then configureLoggingEventForwarder
             (cc\<lparr>clients := (clients cc)[i := (clients cc ! i)\<lparr>receiveLogs := True\<rparr>]\<rparr>)
      else cc)"

text \<open>
  The peer of session \<open>i\<close> starts the closing handshake: until the transport emits
  \<^verbatim>\<open>close\<close> the socket is \<open>CLOSING\<close>.
\<close>

definition peer_closing :: "nat \<Rightarrow> 'd ClientsController \<Rightarrow> 'd ClientsController" where
  "peer_closing i cc =
     (if i < length (clients cc)
      then cc\<lparr>clients :=
                (clients cc)[i := (clients cc ! i)
                                    \<lparr>socket := (socket (clients cc ! i))\<lparr>readyState := CLOSING\<rparr>\<rparr>]\<rparr>
      else cc)"

section \<open>The controller namespace of the incoming messages\<close>


text \<open>
  Modelled from the spec: the members of \<^verbatim>\<open>ControllerCommand\<close> that
  \<^verbatim>\<open>controller/incoming_message.ts\<close> names (\<^verbatim>\<open>controller/command.ts\<close> is not among
  the sources), in the order of their first use.
\<close>

datatype ControllerCommand =
    ControllerCommand_beginInclusion
  | ControllerCommand_stopInclusion
  | ControllerCommand_beginExclusion
  | ControllerCommand_stopExclusion
  | ControllerCommand_removeFailedNode
  | ControllerCommand_replaceFailedNode
  | ControllerCommand_healNode
  | ControllerCommand_beginHealingNetwork
  | ControllerCommand_stopHealingNetwork
  | ControllerCommand_isFailedNode
  | ControllerCommand_getAssociationGroups
  | ControllerCommand_getAssociations
  | ControllerCommand_isAssociationAllowed
  | ControllerCommand_addAssociations
  | ControllerCommand_removeAssociations
  | ControllerCommand_removeNodeFromAllAssociations
  | ControllerCommand_removeNodeFromAllAssocations
  | ControllerCommand_getNodeNeighbors
  | ControllerCommand_grantSecurityClasses
  | ControllerCommand_validateDSKAndEnterPIN
  | ControllerCommand_provisionSmartStartNode
  | ControllerCommand_unprovisionSmartStartNode
  | ControllerCommand_getProvisioningEntry
  | ControllerCommand_getProvisioningEntries
  | ControllerCommand_supportsFeature
  | ControllerCommand_backupNVMRaw
  | ControllerCommand_restoreNVM
  | ControllerCommand_setRFRegion
  | ControllerCommand_getRFRegion
  | ControllerCommand_setPowerlevel
  | ControllerCommand_getPowerlevel
  | ControllerCommand_getState
  | ControllerCommand_getKnownLifelineRoutes
  | ControllerCommand_isAnyOTAFirmwareUpdateInProgress
  | ControllerCommand_getAnyFirmwareUpdateProgress
  | ControllerCommand_getAvailableFirmwareUpdates
  | ControllerCommand_beginOTAFirmwareUpdate
  | ControllerCommand_firmwareUpdateOTA

text \<open>
  The interfaces of \<^verbatim>\<open>controller/incoming_message.ts\<close>, one constructor each, and the
  type of the \<^verbatim>\<open>command\<close> field of each: the list of the members of its union.
\<close>

datatype IncomingCommandController =
    IncomingCommandControllerBeginInclusion
  | IncomingCommandControllerBeginInclusionLegacy
  | IncomingCommandControllerStopInclusion
  | IncomingCommandControllerBeginExclusion
  | IncomingCommandControllerStopExclusion
  | IncomingCommandControllerRemoveFailedNode
  | IncomingCommandControllerReplaceFailedNode
  | IncomingCommandControllerReplaceFailedNodeLegacy
  | IncomingCommandControllerHealNode
  | IncomingCommandControllerBeginHealingNetwork
  | IncomingCommandControllerStopHealingNetwork
  | IncomingCommandControllerIsFailedNode
  | IncomingCommandControllerGetAssociationGroups
  | IncomingCommandControllerGetAssociations
  | IncomingCommandControllerIsAssociationAllowed
  | IncomingCommandControllerAddAssociations
  | IncomingCommandControllerRemoveAssociations
  | IncomingCommandControllerRemoveNodeFromAllAssociations
  | IncomingCommandControllerGetNodeNeighbors
  | IncomingCommandControllerGrantSecurityClasses
  | IncomingCommandControllerValidateDSKAndEnterPIN
  | IncomingCommandControllerProvisionSmartStartNode
  | IncomingCommandControllerUnprovisionSmartStartNode
  | IncomingCommandControllerGetProvisioningEntry
  | IncomingCommandControllerGetProvisioningEntries
  | IncomingCommandControllerSupportsFeature
  | IncomingCommandControllerBackupNVMRaw
  | IncomingCommandControllerRestoreNVM
  | IncomingCommandControllerSetRFRegion
  | IncomingCommandControllerGetRFRegion
  | IncomingCommandControllerSetPowerlevel
  | IncomingCommandControllerGetPowerlevel
  | IncomingCommandControllerGetState
  | IncomingCommandControllerGetKnownLifelineRoutes
  | IncomingCommandControllerIsAnyOTAFirmwareUpdateInProgress
  | IncomingCommandControllerGetAvailableFirmwareUpdates
  | IncomingCommandControllerBeginOTAFirmwareUpdate
  | IncomingCommandControllerFirmwareUpdateOTA

fun interface_command :: "IncomingCommandController \<Rightarrow> ControllerCommand list" where
  "interface_command IncomingCommandControllerBeginInclusion =
     [ControllerCommand_beginInclusion]"
| "interface_command IncomingCommandControllerBeginInclusionLegacy =
     [ControllerCommand_beginInclusion]"
| "interface_command IncomingCommandControllerStopInclusion =
     [ControllerCommand_stopInclusion]"
| "interface_command IncomingCommandControllerBeginExclusion =
     [ControllerCommand_beginExclusion]"
| "interface_command IncomingCommandControllerStopExclusion =
     [ControllerCommand_stopExclusion]"
| "interface_command IncomingCommandControllerRemoveFailedNode =
     [ControllerCommand_removeFailedNode]"
| "interface_command IncomingCommandControllerReplaceFailedNode =
     [ControllerCommand_replaceFailedNode]"
| "interface_command IncomingCommandControllerReplaceFailedNodeLegacy =
     [ControllerCommand_replaceFailedNode]"
| "interface_command IncomingCommandControllerHealNode =
     [ControllerCommand_healNode]"
| "interface_command IncomingCommandControllerBeginHealingNetwork =
     [ControllerCommand_beginHealingNetwork]"
| "interface_command IncomingCommandControllerStopHealingNetwork =
     [ControllerCommand_stopHealingNetwork]"
| "interface_command IncomingCommandControllerIsFailedNode =
     [ControllerCommand_isFailedNode]"
| "interface_command IncomingCommandControllerGetAssociationGroups =
     [ControllerCommand_getAssociationGroups]"
| "interface_command IncomingCommandControllerGetAssociations =
     [ControllerCommand_getAssociations]"
| "interface_command IncomingCommandControllerIsAssociationAllowed =
     [ControllerCommand_isAssociationAllowed]"
| "interface_command IncomingCommandControllerAddAssociations =
     [ControllerCommand_addAssociations]"
| "interface_command IncomingCommandControllerRemoveAssociations =
     [ControllerCommand_removeAssociations]"
| "interface_command IncomingCommandControllerRemoveNodeFromAllAssociations =
     [ControllerCommand_removeNodeFromAllAssociations,
      ControllerCommand_removeNodeFromAllAssocations]"
| "interface_command IncomingCommandControllerGetNodeNeighbors =
     [ControllerCommand_getNodeNeighbors]"
| "interface_command IncomingCommandControllerGrantSecurityClasses =
     [ControllerCommand_grantSecurityClasses]"
| "interface_command IncomingCommandControllerValidateDSKAndEnterPIN =
     [ControllerCommand_validateDSKAndEnterPIN]"
| "interface_command IncomingCommandControllerProvisionSmartStartNode =
     [ControllerCommand_provisionSmartStartNode]"
| "interface_command IncomingCommandControllerUnprovisionSmartStartNode =
     [ControllerCommand_unprovisionSmartStartNode]"
| "interface_command IncomingCommandControllerGetProvisioningEntry =
     [ControllerCommand_getProvisioningEntry]"
| "interface_command IncomingCommandControllerGetProvisioningEntries =
     [ControllerCommand_getProvisioningEntries]"
| "interface_command IncomingCommandControllerSupportsFeature =
     [ControllerCommand_supportsFeature]"
| "interface_command IncomingCommandControllerBackupNVMRaw =
     [ControllerCommand_backupNVMRaw]"
| "interface_command IncomingCommandControllerRestoreNVM =
     [ControllerCommand_restoreNVM]"
| "interface_command IncomingCommandControllerSetRFRegion =
     [ControllerCommand_setRFRegion]"
| "interface_command IncomingCommandControllerGetRFRegion =
     [ControllerCommand_getRFRegion]"
| "interface_command IncomingCommandControllerSetPowerlevel =
     [ControllerCommand_setPowerlevel]"
| "interface_command IncomingCommandControllerGetPowerlevel =
     [ControllerCommand_getPowerlevel]"
| "interface_command IncomingCommandControllerGetState =
     [ControllerCommand_getState]"
| "interface_command IncomingCommandControllerGetKnownLifelineRoutes =
     [ControllerCommand_getKnownLifelineRoutes]"
| "interface_command IncomingCommandControllerIsAnyOTAFirmwareUpdateInProgress =
     [ControllerCommand_isAnyOTAFirmwareUpdateInProgress,
      ControllerCommand_getAnyFirmwareUpdateProgress]"
| "interface_command IncomingCommandControllerGetAvailableFirmwareUpdates =
     [ControllerCommand_getAvailableFirmwareUpdates]"
| "interface_command IncomingCommandControllerBeginOTAFirmwareUpdate =
     [ControllerCommand_beginOTAFirmwareUpdate]"
| "interface_command IncomingCommandControllerFirmwareUpdateOTA =
     [ControllerCommand_firmwareUpdateOTA]"

text \<open>The union type \<^verbatim>\<open>IncomingMessageController\<close>, in the order of the source.\<close>

definition IncomingMessageController :: "IncomingCommandController list" where
  "IncomingMessageController =
     [IncomingCommandControllerBeginInclusion,
      IncomingCommandControllerBeginInclusionLegacy,
      IncomingCommandControllerStopInclusion,
      IncomingCommandControllerBeginExclusion,
      IncomingCommandControllerStopExclusion,
      IncomingCommandControllerRemoveFailedNode,
      IncomingCommandControllerReplaceFailedNode,
      IncomingCommandControllerReplaceFailedNodeLegacy,
      IncomingCommandControllerHealNode,
      IncomingCommandControllerBeginHealingNetwork,
      IncomingCommandControllerStopHealingNetwork,
      IncomingCommandControllerIsFailedNode,
      IncomingCommandControllerGetAssociationGroups,
      IncomingCommandControllerGetAssociations,
      IncomingCommandControllerIsAssociationAllowed,
      IncomingCommandControllerAddAssociations,
      IncomingCommandControllerRemoveAssociations,
      IncomingCommandControllerRemoveNodeFromAllAssociations,
      IncomingCommandControllerGetNodeNeighbors,
      IncomingCommandControllerGrantSecurityClasses,
      IncomingCommandControllerValidateDSKAndEnterPIN,
      IncomingCommandControllerProvisionSmartStartNode,
      IncomingCommandControllerUnprovisionSmartStartNode,
      IncomingCommandControllerGetProvisioningEntry,
      IncomingCommandControllerGetProvisioningEntries,
      IncomingCommandControllerSupportsFeature,
      IncomingCommandControllerBackupNVMRaw,
      IncomingCommandControllerRestoreNVM,
      IncomingCommandControllerSetRFRegion,
      IncomingCommandControllerGetRFRegion,
      IncomingCommandControllerSetPowerlevel,
      IncomingCommandControllerGetPowerlevel,
      IncomingCommandControllerGetState,
      IncomingCommandControllerGetKnownLifelineRoutes,
      IncomingCommandControllerIsAnyOTAFirmwareUpdateInProgress,
      IncomingCommandControllerGetAvailableFirmwareUpdates,
      IncomingCommandControllerBeginOTAFirmwareUpdate,
      IncomingCommandControllerFirmwareUpdateOTA]"

text \<open>
  A message of the controller namespace is typed by an interface of the union whose
  \<^verbatim>\<open>command\<close> type has its command; \<open>accepting\<close> lists these interfaces.
\<close>

definition accepting :: "ControllerCommand \<Rightarrow> IncomingCommandController list" where
  "accepting cmd = filter (\<lambda>i. cmd \<in> set (interface_command i)) IncomingMessageController"

section \<open>A gateway to evaluate on\<close>

text \<open>
  A gateway with the schema versions 1 to 10 over a driver without state of its own,
  whose dumps are empty objects and whose handlers return \<^verbatim>\<open>null\<close>. Its parser reads
  the frames below, the last but one of which is cut short, and fails on every other
  text.
\<close>

definition frame_initialize_999 :: string where
  \<open>frame_initialize_999 = ''{"messageId":"1","command":"initialize","schemaVersion":999}''\<close>

definition frame_initialize_5 :: string where
  \<open>frame_initialize_5 =
     ''{"messageId":"2","command":"initialize","schemaVersion":5,"additionalUserAgentComponents":{"HA":"1"}}''\<close>

definition frame_setApiSchema_7 :: string where
  \<open>frame_setApiSchema_7 =
     ''{"messageId":"3","command":"setApiSchema","schemaVersion":7,"additionalUserAgentComponents":{"X":"2"}}''\<close>

definition frame_startListening :: string where
  \<open>frame_startListening = ''{"messageId":"4","command":"startListening"}''\<close>

definition frame_updateLogConfig :: string where
  \<open>frame_updateLogConfig = ''{"messageId":"5","command":"updateLogConfig","config":{}}''\<close>

definition frame_toString :: string where
  \<open>frame_toString = ''{"messageId":"6","command":"toString.x"}''\<close>

definition frame_malformed :: string where
  \<open>frame_malformed = ''{"messageId":''\<close>

definition frame_null :: string where
  "frame_null = ''null''"

definition incoming :: "string \<Rightarrow> string \<Rightarrow> IncomingMessage" where
  "incoming mid cmd =
     \<lparr>msg_messageId = mid, msg_command = cmd, msg_schemaVersion = 0,
      msg_additionalUserAgentComponents = None, msg_config = JNull, msg_payload = JNull\<rparr>"

definition example_parse :: "string \<Rightarrow> parsed option" where
  "example_parse =
     map_of
       [(frame_initialize_999,
           ParsedObject ((incoming ''1'' ''initialize'')\<lparr>msg_schemaVersion := 999\<rparr>)),
        (frame_initialize_5,
           ParsedObject
             ((incoming ''2'' ''initialize'')
                \<lparr>msg_schemaVersion := 5,
                 msg_additionalUserAgentComponents := Some [(''HA'', ''1'')]\<rparr>)),
        (frame_setApiSchema_7,
           ParsedObject
             ((incoming ''3'' ''setApiSchema'')
                \<lparr>msg_schemaVersion := 7,
                 msg_additionalUserAgentComponents := Some [(''X'', ''2'')]\<rparr>)),
        (frame_startListening, ParsedObject (incoming ''4'' ''startListening'')),
        (frame_updateLogConfig,
           ParsedObject ((incoming ''5'' ''updateLogConfig'')\<lparr>msg_config := JObject []\<rparr>)),
        (frame_toString, ParsedObject (incoming ''6'' ''toString.x'')),
        (frame_null, ParsedNull)]"

definition example_env :: "unit externals" where
  "example_env =
     \<lparr>minSchemaVersion = 1, maxSchemaVersion = 10,
      JSON_parse = example_parse,
      dumpState = (\<lambda>d v. Inr (JObject [])),
      dumpLogConfig = (\<lambda>d v. Inr (JObject [])),
      updateLogConfig = (\<lambda>cfg d. Inr d),
      handle = (\<lambda>i msg c d. (Inr JNull, d)),
      libVersion = ''10.3.0'', version = ''1.23.1'',
      homeId = (\<lambda>d. None)\<rparr>"

text \<open>The same gateway over a driver whose state dump throws.\<close>

definition failing_dump_env :: "unit externals" where
  "failing_dump_env = example_env\<lparr>dumpState := (\<lambda>d v. Inl UnexpectedError)\<rparr>"

definition open_socket :: WebSocket where
  "open_socket = \<lparr>readyState = OPEN, sent = [], pings = 0, closeCalls = 0\<rparr>"

definition example_client :: Client where
  "example_client = new_Client example_env open_socket"

text \<open>The observations on replies that the statements below use.\<close>

fun result_messageId :: "OutgoingMessage \<Rightarrow> string option" where
  "result_messageId (ResultMessageSuccess messageId r) = Some messageId"
| "result_messageId (ResultMessageError messageId code a) = Some messageId"
| "result_messageId (ResultMessageZWaveError messageId code message) = Some messageId"
| "result_messageId (VersionMessage dv sv h mn mx) = None"
| "result_messageId (EventMessage e) = None"

fun result_success :: "OutgoingMessage \<Rightarrow> bool" where
  "result_success (ResultMessageSuccess messageId r) = True"
| "result_success other = False"

text \<open>
  Two registries. The first is what two accepted connections leave of a new
  registry: two sessions with open sockets that have been sent the version greeting. In
  the second the first of these sessions has subscribed to the logs, so that the logging
  forwarder is running, and its peer has then started the closing handshake.
\<close>

definition example_registry :: "unit ClientsController" where
  "example_registry =
     addSocket example_env open_socket
       (addSocket example_env open_socket (new_ClientsController ()))"

definition logging_registry :: "unit ClientsController" where
  "logging_registry = peer_closing 0 (subscribe_logs 0 example_registry)"


section \<open>Properties\<close>

lemmas ServerCommand_defs =
  ServerCommand_initialize_def ServerCommand_setApiSchema_def
  ServerCommand_startListening_def ServerCommand_updateLogConfig_def
  ServerCommand_getLogConfig_def

lemmas frame_defs =
  frame_initialize_999_def frame_initialize_5_def frame_setApiSchema_7_def
  frame_startListening_def frame_updateLogConfig_def frame_toString_def
  frame_malformed_def frame_null_def

subsection \<open>The gateway of the evaluations\<close>

lemma parse_initialize_999:
  "JSON_parse example_env frame_initialize_999 =
     Some (ParsedObject ((incoming ''1'' ''initialize'')\<lparr>msg_schemaVersion := 999\<rparr>))"
  by (simp add: example_env_def example_parse_def frame_defs)

lemma parse_initialize_5:
  "JSON_parse example_env frame_initialize_5 =
     Some (ParsedObject
             ((incoming ''2'' ''initialize'')
                \<lparr>msg_schemaVersion := 5,
                 msg_additionalUserAgentComponents := Some [(''HA'', ''1'')]\<rparr>))"
  by (simp add: example_env_def example_parse_def frame_defs)

lemma parse_setApiSchema_7:
  "JSON_parse example_env frame_setApiSchema_7 =
     Some (ParsedObject
             ((incoming ''3'' ''setApiSchema'')
                \<lparr>msg_schemaVersion := 7,
                 msg_additionalUserAgentComponents := Some [(''X'', ''2'')]\<rparr>))"
  by (simp add: example_env_def example_parse_def frame_defs)

lemma parse_startListening:
  "JSON_parse example_env frame_startListening =
     Some (ParsedObject (incoming ''4'' ''startListening''))"
  by (simp add: example_env_def example_parse_def frame_defs)

lemma parse_updateLogConfig:
  "JSON_parse example_env frame_updateLogConfig =
     Some (ParsedObject ((incoming ''5'' ''updateLogConfig'')\<lparr>msg_config := JObject []\<rparr>))"
  by (simp add: example_env_def example_parse_def frame_defs)

lemma parse_toString:
  "JSON_parse example_env frame_toString = Some (ParsedObject (incoming ''6'' ''toString.x''))"
  by (simp add: example_env_def example_parse_def frame_defs)

lemma parse_malformed: "JSON_parse example_env frame_malformed = None"
  by (simp add: example_env_def example_parse_def frame_defs)

lemma parse_null: "JSON_parse example_env frame_null = Some ParsedNull"
  by (simp add: example_env_def example_parse_def frame_defs)

lemma example_env_simps:
  "minSchemaVersion example_env = 1" "maxSchemaVersion example_env = 10"
  "dumpState example_env = (\<lambda>d v. Inr (JObject []))"
  "dumpLogConfig example_env = (\<lambda>d v. Inr (JObject []))"
  "updateLogConfig example_env = (\<lambda>cfg d. Inr d)"
  "handle example_env = (\<lambda>i msg c d. (Inr JNull, d))"
  by (simp_all add: example_env_def)

lemma failing_dump_env_simps:
  "JSON_parse failing_dump_env = JSON_parse example_env"
  "dumpState failing_dump_env = (\<lambda>d v. Inl UnexpectedError)"
  by (simp_all add: failing_dump_env_def)

lemma example_client_simps:
  "example_client =
     \<lparr>receiveEvents = False, outstandingPing = False, schemaVersion = 1,
      receiveLogs = False, additionalUserAgentComponents = None, socket = open_socket\<rparr>"
  by (simp add: example_client_def new_Client_def example_env_simps)

lemma example_registry_simps:
  "example_registry =
     \<lparr>clients =
        [example_client
           \<lparr>socket := open_socket
              \<lparr>sent := [(VersionMessage ''10.3.0'' ''1.23.1'' None 1 10, False)]\<rparr>\<rparr>,
         example_client
           \<lparr>socket := open_socket
              \<lparr>sent := [(VersionMessage ''10.3.0'' ''1.23.1'' None 1 10, False)]\<rparr>\<rparr>],
      driver = (), pingInterval = True, eventForwarder = True, cleanupScheduled = False,
      loggingEventForwarder = None, pendingCleanups = 0\<rparr>"
  by (simp add: example_registry_def addSocket_def new_ClientsController_def sendVersion_def
      sendData_def socket_send_def example_client_def new_Client_def open_socket_def
      example_env_def)

lemma logging_registry_simps:
  "logging_registry =
     \<lparr>clients =
        [example_client
           \<lparr>receiveLogs := True,
            socket := open_socket
              \<lparr>readyState := CLOSING,
               sent := [(VersionMessage ''10.3.0'' ''1.23.1'' None 1 10, False)]\<rparr>\<rparr>,
         example_client
           \<lparr>socket := open_socket
              \<lparr>sent := [(VersionMessage ''10.3.0'' ''1.23.1'' None 1 10, False)]\<rparr>\<rparr>],
      driver = (), pingInterval = True, eventForwarder = True, cleanupScheduled = False,
      loggingEventForwarder = Some True, pendingCleanups = 0\<rparr>"
  by (simp add: logging_registry_def peer_closing_def subscribe_logs_def
      configureLoggingEventForwarder_def loggingEventForwarderStarted_def
      LoggingEventForwarder_start_def example_registry_simps example_client_simps
      open_socket_def)

subsection \<open>Sending\<close>

lemma socket_sendData [simp]:
  "socket (sendData m z c) = socket_send m z (socket c)"
  by (simp add: sendData_def)

lemma socket_send_simps [simp]:
  "sent (socket_send m z s) = sent s @ [(m, z)]"
  "readyState (socket_send m z s) = readyState s"
  "closeCalls (socket_send m z s) = closeCalls s"
  "pings (socket_send m z s) = pings s"
  by (simp_all add: socket_send_def)

lemma sendData_fields [simp]:
  "receiveEvents (sendData m z c) = receiveEvents c"
  "outstandingPing (sendData m z c) = outstandingPing c"
  "schemaVersion (sendData m z c) = schemaVersion c"
  "receiveLogs (sendData m z c) = receiveLogs c"
  "additionalUserAgentComponents (sendData m z c) = additionalUserAgentComponents c"
  by (simp_all add: sendData_def)

lemma catch_block_fields [simp]:
  "receiveEvents (catch_block msg e c) = receiveEvents c"
  "outstandingPing (catch_block msg e c) = outstandingPing c"
  "schemaVersion (catch_block msg e c) = schemaVersion c"
  "receiveLogs (catch_block msg e c) = receiveLogs c"
  "additionalUserAgentComponents (catch_block msg e c) = additionalUserAgentComponents c"
  by (cases e; simp add: catch_block_def sendResultError_def sendResultZWaveError_def)+

lemma catch_block_socket:
  "\<exists>r. socket (catch_block msg e c) = socket_send r False (socket c) \<and>
       result_messageId r = Some (msg_messageId msg) \<and> \<not> result_success r"
proof (cases e)
  case (BaseError b)
  then show ?thesis
    by (intro exI[of _ "ResultMessageError (msg_messageId msg) (errorCode b) (args b)"])
       (simp add: catch_block_def sendResultError_def)
next
  case (ZWaveError code message)
  then show ?thesis
    by (intro exI[of _ "ResultMessageZWaveError (msg_messageId msg) code message"])
       (simp add: catch_block_def sendResultZWaveError_def)
next
  case UnexpectedError
  then show ?thesis
    by (intro exI[of _ "ResultMessageError (msg_messageId msg) ErrorCode_unknownError
                          (Args (JObject []))"])
       (simp add: catch_block_def sendResultError_def)
qed

subsection \<open>A parsed message\<close>

lemma receiveMessage_parsed:
  "JSON_parse env data = Some (ParsedObject msg) \<Longrightarrow>
   receiveMessage env data c d =
     (case try_block env msg c d of
        (None, c1, d1) \<Rightarrow> (None, c1, d1)
      | (Some err, c1, d1) \<Rightarrow> (None, catch_block msg err c1, d1))"
  by (simp add: receiveMessage_def)

text \<open>
  When the \<^verbatim>\<open>try\<close> block completes it has sent one success reply, the last frame of
  the socket; when it throws it has sent nothing.
\<close>

lemma try_block_socket:
  "(case try_block env msg c d of
      (None, c1, d1) \<Rightarrow>
         butlast (sent (socket c1)) = sent (socket c) \<and> sent (socket c1) \<noteq> [] \<and>
         result_messageId (fst (last (sent (socket c1)))) = Some (msg_messageId msg) \<and>
         result_success (fst (last (sent (socket c1)))) \<and>
         readyState (socket c1) = readyState (socket c) \<and>
         closeCalls (socket c1) = closeCalls (socket c)
    | (Some e, c1, d1) \<Rightarrow> socket c1 = socket c)"
  by (simp add: try_block_def setSchemaVersion_def Let_def sendResultSuccess_def
      split: prod.split option.split sum.split property.split)

lemma setApiSchema_receive:
  assumes "JSON_parse env data = Some (ParsedObject msg)"
    and "msg_command msg = ServerCommand_setApiSchema"
  shows "receiveMessage env data c d =
     (None,
      (if msg_schemaVersion msg < minSchemaVersion env \<or>
          msg_schemaVersion msg > maxSchemaVersion env
       then sendResultError (msg_messageId msg) ErrorCode_schemaIncompatible
              (SchemaArgs (msg_schemaVersion msg)) (c\<lparr>schemaVersion := msg_schemaVersion msg\<rparr>)
       else sendResultSuccess (msg_messageId msg) (Result (JObject [])) False
              (c\<lparr>schemaVersion := msg_schemaVersion msg\<rparr>)), d)"
  using assms
  by (simp add: receiveMessage_def try_block_def catch_block_def setSchemaVersion_def
      ServerCommand_defs Let_def)

lemma initialize_receive:
  assumes "JSON_parse env data = Some (ParsedObject msg)"
    and "msg_command msg = ServerCommand_initialize"
  shows "receiveMessage env data c d =
     (None,
      (if msg_schemaVersion msg < minSchemaVersion env \<or>
          msg_schemaVersion msg > maxSchemaVersion env
       then sendResultError (msg_messageId msg) ErrorCode_schemaIncompatible
              (SchemaArgs (msg_schemaVersion msg)) (c\<lparr>schemaVersion := msg_schemaVersion msg\<rparr>)
       else sendResultSuccess (msg_messageId msg) (Result (JObject [])) False
              (c\<lparr>schemaVersion := msg_schemaVersion msg,
                 additionalUserAgentComponents := msg_additionalUserAgentComponents msg\<rparr>)), d)"
  using assms
  by (simp add: receiveMessage_def try_block_def catch_block_def setSchemaVersion_def
      ServerCommand_defs Let_def)

lemma try_block_additionalUserAgentComponents:
  "msg_command msg \<noteq> ServerCommand_initialize \<Longrightarrow>
   additionalUserAgentComponents (fst (snd (try_block env msg c d))) =
     additionalUserAgentComponents c"
  by (simp add: try_block_def setSchemaVersion_def Let_def sendResultSuccess_def
      split: prod.split option.split sum.split property.split)

lemma receiveMessage_additionalUserAgentComponents:
  "JSON_parse env data = Some (ParsedObject msg) \<Longrightarrow>
   additionalUserAgentComponents (fst (snd (receiveMessage env data c d))) =
     additionalUserAgentComponents (fst (snd (try_block env msg c d)))"
  by (simp add: receiveMessage_parsed split: prod.split option.split)

text \<open>
  A command that is not built in and whose namespace is neither a key of the handler
  table nor a member of \<^verbatim>\<open>Object.prototype\<close> gets the unknown-command reply.
\<close>

lemma unknown_namespace:
  assumes "JSON_parse env data = Some (ParsedObject msg)"
    and "msg_command msg \<notin> {ServerCommand_initialize, ServerCommand_setApiSchema,
           ServerCommand_startListening, ServerCommand_updateLogConfig,
           ServerCommand_getLogConfig}"
    and "instanceHandlers (instance_of (msg_command msg)) = None"
  shows "receiveMessage env data c d =
     (None,
      sendResultError (msg_messageId msg) ErrorCode_unknownCommand
        (CommandArgs (msg_command msg)) c, d)"
  using assms
  by (simp add: receiveMessage_def try_block_def catch_block_def)

subsection \<open>The heartbeat\<close>

lemma pingInterval_loop_eq:
  "pingInterval_loop cs (newClients, dropped) =
     (newClients @ filter isConnected cs,
      dropped @ map disconnect (filter (\<lambda>c. \<not> isConnected c) cs))"
  by (induction cs arbitrary: newClients dropped) simp_all

lemma clients_pingInterval_tick:
  "clients (pingInterval_tick cc) = filter isConnected (clients cc)"
  by (simp add: pingInterval_tick_def pingInterval_loop_eq)

subsection \<open>Schema negotiation\<close>

text \<open>
  C1. Claim: a negotiation command (\<^verbatim>\<open>initialize\<close> or \<^verbatim>\<open>setApiSchema\<close>) whose
  \<^verbatim>\<open>schemaVersion\<close> lies outside the supported range is answered with the
  schema-incompatibility error and leaves the stored \<^verbatim>\<open>schemaVersion\<close> unchanged, and an
  accepted negotiation stores a version inside the range.

  \<^verbatim>\<open>setSchemaVersion\<close> assigns \<^verbatim>\<open>this.schemaVersion\<close> before it compares it with the
  bounds, so the rejected version stays stored (\<open>setApiSchema_receive\<close> and
  \<open>initialize_receive\<close> above give both outcomes for every input). With the bounds 1
  and 10, a session at version 1 that receives \<^verbatim>\<open>initialize\<close> with version 999 sends
  the error reply and afterwards holds 999.
\<close>

theorem rejected_schemaVersion_is_stored:
  "schemaVersion example_client = 1 \<and>
   receiveMessage example_env frame_initialize_999 example_client () =
     (None,
      example_client
        \<lparr>schemaVersion := 999,
         socket := open_socket
           \<lparr>sent := [(ResultMessageError ''1'' ErrorCode_schemaIncompatible (SchemaArgs 999),
                     False)]\<rparr>\<rparr>, ())"
  by (simp add: initialize_receive [OF parse_initialize_999] incoming_def ServerCommand_defs
      example_env_simps example_client_simps sendResultError_def sendData_def socket_send_def
      open_socket_def)

text \<open>
  C10. Handling \<^verbatim>\<open>setApiSchema\<close> changes nothing of the session but its
  \<^verbatim>\<open>schemaVersion\<close> (and the reply it sends): \<^verbatim>\<open>additionalUserAgentComponents\<close>,
  \<^verbatim>\<open>receiveEvents\<close>, \<^verbatim>\<open>receiveLogs\<close> and the liveness flag are as before, and so is
  the driver. An accepted \<^verbatim>\<open>initialize\<close> stores the metadata of its message, and no
  command other than \<^verbatim>\<open>initialize\<close> changes the stored metadata.
\<close>

theorem setApiSchema_keeps_metadata_and_flags:
  assumes "JSON_parse env data = Some (ParsedObject msg)"
  shows "(msg_command msg = ServerCommand_setApiSchema \<longrightarrow>
            additionalUserAgentComponents (fst (snd (receiveMessage env data c d))) =
              additionalUserAgentComponents c \<and>
            receiveEvents (fst (snd (receiveMessage env data c d))) = receiveEvents c \<and>
            receiveLogs (fst (snd (receiveMessage env data c d))) = receiveLogs c \<and>
            outstandingPing (fst (snd (receiveMessage env data c d))) = outstandingPing c \<and>
            snd (snd (receiveMessage env data c d)) = d) \<and>
         (msg_command msg = ServerCommand_initialize \<and>
          minSchemaVersion env \<le> msg_schemaVersion msg \<and>
          msg_schemaVersion msg \<le> maxSchemaVersion env \<longrightarrow>
            additionalUserAgentComponents (fst (snd (receiveMessage env data c d))) =
              msg_additionalUserAgentComponents msg) \<and>
         (msg_command msg \<noteq> ServerCommand_initialize \<longrightarrow>
            additionalUserAgentComponents (fst (snd (receiveMessage env data c d))) =
              additionalUserAgentComponents c)"
proof (intro conjI impI)
  assume "msg_command msg \<noteq> ServerCommand_initialize"
  with assms show "additionalUserAgentComponents (fst (snd (receiveMessage env data c d))) =
      additionalUserAgentComponents c"
    by (simp add: receiveMessage_additionalUserAgentComponents
        try_block_additionalUserAgentComponents)
next
  assume "msg_command msg = ServerCommand_initialize \<and>
          minSchemaVersion env \<le> msg_schemaVersion msg \<and>
          msg_schemaVersion msg \<le> maxSchemaVersion env"
  with assms show "additionalUserAgentComponents (fst (snd (receiveMessage env data c d))) =
      msg_additionalUserAgentComponents msg"
    by (simp add: initialize_receive sendResultSuccess_def)
qed (simp_all add: setApiSchema_receive [OF assms] sendResultSuccess_def sendResultError_def)

theorem setApiSchema_keeps_metadata_and_flags_witness:
  "additionalUserAgentComponents
     (fst (snd (receiveMessage example_env frame_setApiSchema_7
        (example_client\<lparr>additionalUserAgentComponents := Some [(''HA'', ''1'')]\<rparr>) ()))) =
     Some [(''HA'', ''1'')] \<and>
   schemaVersion
     (fst (snd (receiveMessage example_env frame_setApiSchema_7
        (example_client\<lparr>additionalUserAgentComponents := Some [(''HA'', ''1'')]\<rparr>) ()))) = 7 \<and>
   additionalUserAgentComponents
     (fst (snd (receiveMessage example_env frame_initialize_5 example_client ()))) =
     Some [(''HA'', ''1'')]"
  using setApiSchema_keeps_metadata_and_flags [OF parse_setApiSchema_7,
      where c = "example_client\<lparr>additionalUserAgentComponents := Some [(''HA'', ''1'')]\<rparr>"
        and d = "()"]
    setApiSchema_keeps_metadata_and_flags [OF parse_initialize_5,
      where c = example_client and d = "()"]
    setApiSchema_receive [OF parse_setApiSchema_7,
      where c = "example_client\<lparr>additionalUserAgentComponents := Some [(''HA'', ''1'')]\<rparr>"
        and d = "()"]
  by (simp add: incoming_def ServerCommand_defs example_env_simps sendResultSuccess_def)

subsection \<open>Replies\<close>

text \<open>
  A parsed message that is an object gets exactly one frame, a result reply that carries
  its \<^verbatim>\<open>messageId\<close>: a success reply when the \<^verbatim>\<open>try\<close> block completes, an error
  reply when it throws. The promise is fulfilled and the socket is not closed.
\<close>

lemma object_message_gets_one_reply:
  assumes "JSON_parse env data = Some (ParsedObject msg)"
  shows "\<exists>r z. sent (socket (fst (snd (receiveMessage env data c d)))) =
                 sent (socket c) @ [(r, z)] \<and>
           result_messageId r = Some (msg_messageId msg) \<and>
           result_success r = (fst (try_block env msg c d) = None) \<and>
           fst (receiveMessage env data c d) = None \<and>
           readyState (socket (fst (snd (receiveMessage env data c d)))) =
             readyState (socket c) \<and>
           closeCalls (socket (fst (snd (receiveMessage env data c d)))) =
             closeCalls (socket c)"
proof -
  obtain e c1 d1 where t: "try_block env msg c d = (e, c1, d1)"
    by (cases "try_block env msg c d") auto
  show ?thesis
  proof (cases e)
    case None
    with t assms have r: "receiveMessage env data c d = (None, c1, d1)"
      by (simp add: receiveMessage_parsed)
    from try_block_socket [where env = env and msg = msg and c = c and d = d] t None
    have p: "butlast (sent (socket c1)) = sent (socket c)" "sent (socket c1) \<noteq> []"
      "result_messageId (fst (last (sent (socket c1)))) = Some (msg_messageId msg)"
      "result_success (fst (last (sent (socket c1))))"
      "readyState (socket c1) = readyState (socket c)"
      "closeCalls (socket c1) = closeCalls (socket c)"
      by simp_all
    define r0 where "r0 = fst (last (sent (socket c1)))"
    define z0 where "z0 = snd (last (sent (socket c1)))"
    have "butlast (sent (socket c1)) @ [last (sent (socket c1))] = sent (socket c1)"
      using p(2) by (rule append_butlast_last_id)
    with p(1) have "sent (socket c1) = sent (socket c) @ [(r0, z0)]"
      by (simp add: r0_def z0_def)
    moreover have "result_messageId r0 = Some (msg_messageId msg)" "result_success r0"
      using p(3,4) by (simp_all add: r0_def)
    ultimately show ?thesis
      using r t None p(5,6) by (intro exI[of _ r0] exI[of _ z0]) simp
  next
    case (Some err)
    with t assms have r: "receiveMessage env data c d = (None, catch_block msg err c1, d1)"
      by (simp add: receiveMessage_parsed)
    from try_block_socket [where env = env and msg = msg and c = c and d = d] t Some
    have s: "socket c1 = socket c"
      by simp
    from catch_block_socket [where msg = msg and e = err and c = c1] obtain m where
      m: "socket (catch_block msg err c1) = socket_send m False (socket c1)"
        "result_messageId m = Some (msg_messageId msg)" "\<not> result_success m"
      by blast
    with r s t Some show ?thesis
      by (intro exI[of _ m] exI[of _ False]) simp
  qed
qed

text \<open>
  C3. Claim: every successfully parsed frame gets exactly one result reply that carries
  its \<^verbatim>\<open>messageId\<close>, a success reply or, on any thrown failure, an error reply; a
  failure is caught at the session boundary and never leaves it.

  For an object this holds (\<open>object_message_gets_one_reply\<close> above). The frame
  \<^verbatim>\<open>null\<close> parses as well, and for it the read \<^verbatim>\<open>msg.messageId\<close> in the
  \<^verbatim>\<open>catch\<close> block throws: the session sends nothing, closes nothing and the promise of
  \<^verbatim>\<open>receiveMessage\<close> is rejected with the failure.
\<close>

theorem null_frame_gets_no_reply:
  "JSON_parse example_env frame_null = Some ParsedNull \<and>
   receiveMessage example_env frame_null example_client () =
     (Some UnexpectedError, example_client, ()) \<and>
   sent (socket example_client) = [] \<and> closeCalls (socket example_client) = 0"
  by (simp add: receiveMessage_def parse_null example_client_simps open_socket_def)

text \<open>
  C7. A frame that fails to parse makes the session call \<^verbatim>\<open>socket.close()\<close> and
  return: the socket is no longer open, nothing is sent, and neither a field of the
  session nor the driver changes.
\<close>

theorem parse_failure_closes_without_reply:
  assumes "JSON_parse env data = None"
  shows "receiveMessage env data c d = (None, disconnect c, d) \<and>
         closeCalls (socket (disconnect c)) = Suc (closeCalls (socket c)) \<and>
         \<not> isConnected (disconnect c) \<and>
         sent (socket (disconnect c)) = sent (socket c) \<and>
         pings (socket (disconnect c)) = pings (socket c) \<and>
         (disconnect c)\<lparr>socket := socket c\<rparr> = c"
  using assms
  by (simp add: receiveMessage_def disconnect_def socket_close_def isConnected_def)

theorem parse_failure_closes_without_reply_witness:
  "JSON_parse example_env frame_malformed = None \<and>
   receiveMessage example_env frame_malformed example_client () =
     (None,
      example_client\<lparr>socket := open_socket\<lparr>readyState := CLOSING, closeCalls := 1\<rparr>\<rparr>, ())"
  using parse_failure_closes_without_reply [OF parse_malformed,
      where c = example_client and d = "()"] parse_malformed
  by (simp add: disconnect_def socket_close_def example_client_simps open_socket_def)

text \<open>
  C8. Claim: a command that is not built in and whose namespace (the text before the
  first dot) matches no handler family is answered with the unknown-command error.

  The namespace is looked up with \<^verbatim>\<open>this.instanceHandlers[instance]\<close>, which also
  finds what the table inherits from \<^verbatim>\<open>Object.prototype\<close>. The command
  \<^verbatim>\<open>toString.x\<close> is not built in and \<^verbatim>\<open>toString\<close> is no handler family, yet the
  lookup gives a function, the session calls it and replies with success and the value
  it returned. (\<open>unknown_namespace\<close> above is the statement that holds.)
\<close>

theorem inherited_namespace_gets_success_reply:
  "msg_command (incoming ''6'' ''toString.x'') \<notin>
     {ServerCommand_initialize, ServerCommand_setApiSchema, ServerCommand_startListening,
      ServerCommand_updateLogConfig, ServerCommand_getLogConfig} \<and>
   map_of Instance_values (instance_of (msg_command (incoming ''6'' ''toString.x''))) = None \<and>
   receiveMessage example_env frame_toString example_client () =
     (None,
      example_client
        \<lparr>socket := open_socket
           \<lparr>sent := [(ResultMessageSuccess ''6'' (ResultOfPrototypeMember ''toString''),
                     False)]\<rparr>\<rparr>, ())"
  by (simp add: receiveMessage_def parse_toString try_block_def catch_block_def
      ServerCommand_defs sendResultSuccess_def sendData_def socket_send_def incoming_def
      example_client_simps open_socket_def example_env_simps instanceHandlers_def
      instance_of_def Instance_values_def Object_prototype_members_def
      call_prototype_member_def)

subsection \<open>Liveness\<close>

text \<open>
  C2. Claim: on every heartbeat tick each registered session that is still connected is
  probed (a ping is sent and \<^verbatim>\<open>outstandingPing\<close> is set), and a session whose
  \<^verbatim>\<open>outstandingPing\<close> is still set at the next tick is disconnected instead.

  \<^verbatim>\<open>Client.checkAlive\<close> does this, but the callback of the timer never calls it: it
  keeps the connected sessions as they are (\<open>clients_pingInterval_tick\<close>). On the
  registry of two connected sessions, two ticks in a row (no \<^verbatim>\<open>pong\<close> between them)
  change nothing: no ping is sent, no flag is set and nothing is closed. The last three
  lines show what \<^verbatim>\<open>checkAlive\<close> does on the same sessions, called once and twice.
\<close>

theorem heartbeat_tick_probes_nothing:
  "map isConnected (clients example_registry) = [True, True] \<and>
   map (\<lambda>c. pings (socket c)) (clients example_registry) = [0, 0] \<and>
   map outstandingPing (clients example_registry) = [False, False] \<and>
   pingInterval_tick example_registry = example_registry \<and>
   pingInterval_tick (pingInterval_tick example_registry) = example_registry \<and>
   map (\<lambda>c. pings (socket (checkAlive c))) (clients example_registry) = [1, 1] \<and>
   map (\<lambda>c. outstandingPing (checkAlive c)) (clients example_registry) = [True, True] \<and>
   map (\<lambda>c. isConnected (checkAlive (checkAlive c))) (clients example_registry) =
     [False, False]"
  by (simp add: pingInterval_tick_def pingInterval_loop_eq example_registry_simps
      example_client_simps isConnected_def open_socket_def checkAlive_def disconnect_def
      socket_close_def socket_ping_def)

subsection \<open>Coalesced cleanup\<close>

lemma scheduleClientCleanup_simps [simp]:
  "cleanupScheduled (scheduleClientCleanup cc)"
  "pendingCleanups (scheduleClientCleanup cc) =
     (if cleanupScheduled cc then pendingCleanups cc else Suc (pendingCleanups cc))"
  "clients (scheduleClientCleanup cc) = clients cc"
  "loggingEventForwarder (scheduleClientCleanup cc) = loggingEventForwarder cc"
  by (simp_all add: scheduleClientCleanup_def)

lemma on_close_simps [simp]:
  "cleanupScheduled (on_close i cc)"
  "pendingCleanups (on_close i cc) =
     (if cleanupScheduled cc then pendingCleanups cc else Suc (pendingCleanups cc))"
  "loggingEventForwarder (on_close i cc) = loggingEventForwarder cc"
  by (simp_all add: on_close_def)

lemma fold_on_close_scheduled:
  "cleanupScheduled cc \<Longrightarrow>
   cleanupScheduled (fold on_close is cc) \<and>
   pendingCleanups (fold on_close is cc) = pendingCleanups cc"
  by (induction "is" arbitrary: cc) simp_all

lemma fold_on_close_loggingEventForwarder [simp]:
  "loggingEventForwarder (fold on_close is cc) = loggingEventForwarder cc"
  by (induction "is" arbitrary: cc) simp_all

lemma fold_on_close_pending:
  assumes "pendingCleanups cc = (if cleanupScheduled cc then 1 else 0)" and "is \<noteq> []"
  shows "cleanupScheduled (fold on_close is cc) \<and> pendingCleanups (fold on_close is cc) = 1"
proof -
  from assms(2) obtain i rest where "is": "is = i # rest"
    by (cases "is") auto
  have "cleanupScheduled (on_close i cc)" "pendingCleanups (on_close i cc) = 1"
    using assms(1) by (simp_all split: if_splits)
  with fold_on_close_scheduled [of "on_close i cc" rest] show ?thesis
    by (simp add: "is")
qed

lemma cleanupLoggingEventForwarder_simps [simp]:
  "clients (cleanupLoggingEventForwarder cc) = clients cc"
  "cleanupScheduled (cleanupLoggingEventForwarder cc) = cleanupScheduled cc"
  "pendingCleanups (cleanupLoggingEventForwarder cc) = pendingCleanups cc"
  "driver (cleanupLoggingEventForwarder cc) = driver cc"
  by (simp_all add: cleanupLoggingEventForwarder_def)

lemma cleanupLoggingEventForwarder_started:
  "loggingEventForwarderStarted (cleanupLoggingEventForwarder cc) =
     (loggingEventForwarderStarted cc \<and> (\<exists>c\<in>set (clients cc). receiveLogs c))"
  by (auto simp add: cleanupLoggingEventForwarder_def loggingEventForwarderStarted_def
      LoggingEventForwarder_stop_def filter_empty_conv)

lemma cleanupClients_simps [simp]:
  "clients (cleanupClients cc) = filter isConnected (clients cc)"
  "cleanupScheduled (cleanupClients cc) = False"
  "pendingCleanups (cleanupClients cc) = pendingCleanups cc"
  by (simp_all add: cleanupClients_def)

lemma cleanupClients_started:
  "loggingEventForwarderStarted (cleanupClients cc) =
     (loggingEventForwarderStarted cc \<and> (\<exists>c\<in>set (clients (cleanupClients cc)). receiveLogs c))"
proof -
  have "loggingEventForwarderStarted
          (cc\<lparr>cleanupScheduled := False, clients := filter isConnected (clients cc)\<rparr>) =
        loggingEventForwarderStarted cc"
    by (simp add: loggingEventForwarderStarted_def)
  then show ?thesis
    by (simp add: cleanupClients_def cleanupLoggingEventForwarder_started)
qed

text \<open>
  C6. However many close notifications (at least one) arrive before the scheduler runs
  the cleanup callback, one callback is queued. Running it clears the flag, keeps the
  connected sessions and applies the stop condition of the logging forwarder to them;
  after it nothing is queued, so no second pass runs.
\<close>

theorem close_notifications_schedule_one_cleanup:
  assumes "pendingCleanups cc = (if cleanupScheduled cc then 1 else 0)" and "is \<noteq> []"
  shows "(let cc1 = fold on_close is cc; cc2 = cleanupClients (cc1\<lparr>pendingCleanups := 0\<rparr>)
          in pendingCleanups cc1 = 1 \<and> cleanupScheduled cc1 \<and>
             run_timeout cc1 = Some cc2 \<and>
             clients cc2 = filter isConnected (clients cc1) \<and>
             loggingEventForwarderStarted cc2 =
               (loggingEventForwarderStarted cc1 \<and> (\<exists>c\<in>set (clients cc2). receiveLogs c)) \<and>
             \<not> cleanupScheduled cc2 \<and> pendingCleanups cc2 = 0 \<and>
             run_timeout cc2 = None)"
proof -
  define cc1 where "cc1 = fold on_close is cc"
  have p: "cleanupScheduled cc1" "pendingCleanups cc1 = 1"
    using fold_on_close_pending [OF assms] by (simp_all add: cc1_def)
  have s: "loggingEventForwarderStarted (cc1\<lparr>pendingCleanups := 0\<rparr>) =
      loggingEventForwarderStarted cc1"
    by (simp add: loggingEventForwarderStarted_def)
  show ?thesis
    unfolding Let_def cc1_def [symmetric]
    using p s cleanupClients_started [of "cc1\<lparr>pendingCleanups := 0\<rparr>"]
    by (simp add: run_timeout_def)
qed

theorem close_notifications_schedule_one_cleanup_witness:
  "pendingCleanups example_registry = (if cleanupScheduled example_registry then 1 else 0) \<and>
   pendingCleanups (fold on_close [0, 1] example_registry) = 1 \<and>
   run_timeout (fold on_close [0, 1] example_registry) =
     Some (cleanupClients ((fold on_close [0, 1] example_registry)\<lparr>pendingCleanups := 0\<rparr>)) \<and>
   clients (cleanupClients ((fold on_close [0, 1] example_registry)\<lparr>pendingCleanups := 0\<rparr>)) = [] \<and>
   run_timeout (cleanupClients ((fold on_close [0, 1] example_registry)\<lparr>pendingCleanups := 0\<rparr>)) = None"
  using close_notifications_schedule_one_cleanup [of example_registry "[0, 1]"]
  by (simp add: Let_def example_registry_simps on_close_def scheduleClientCleanup_def
      transport_closed_def isConnected_def)

subsection \<open>The logging forwarder\<close>

lemma ClientsController_disconnect_simps:
  "clients (ClientsController_disconnect cc) = []"
  "\<not> loggingEventForwarderStarted (ClientsController_disconnect cc)"
  by (simp_all add: ClientsController_disconnect_def cleanupLoggingEventForwarder_started)

text \<open>
  C5. Claim: the logging forwarder is running if and only if at least one registered
  session has \<^verbatim>\<open>receiveLogs = true\<close>; whenever the count of these sessions drops to
  zero the forwarder is stopped, the condition being re-checked after every cleanup pass
  and after every log-config command.

  A cleanup pass applies the condition to the sessions it keeps
  (\<open>cleanupClients_started\<close> above), and so does the full teardown. The callback of
  the heartbeat timer filters the registry in the same way and does not apply it. In the
  registry below the forwarder is running and the one session that receives logs has a
  socket that is closing. The heartbeat tick drops this session and leaves the forwarder
  running with no session that receives logs; \<^verbatim>\<open>updateLogConfig\<close> from the remaining
  session changes nothing of this. A cleanup pass on the same registry stops the
  forwarder, and so does the cleanup pass that follows the tick.
\<close>

theorem heartbeat_tick_leaves_forwarder_running:
  "loggingEventForwarderStarted logging_registry \<and>
   map receiveLogs (clients logging_registry) = [True, False] \<and>
   map isConnected (clients logging_registry) = [False, True] \<and>
   loggingEventForwarderStarted (pingInterval_tick logging_registry) \<and>
   map receiveLogs (clients (pingInterval_tick logging_registry)) = [False] \<and>
   loggingEventForwarderStarted
     (on_message example_env 0 frame_updateLogConfig (pingInterval_tick logging_registry)) \<and>
   map receiveLogs
     (clients (on_message example_env 0 frame_updateLogConfig
                 (pingInterval_tick logging_registry))) = [False] \<and>
   \<not> loggingEventForwarderStarted (cleanupClients logging_registry) \<and>
   map receiveLogs (clients (cleanupClients logging_registry)) = [False] \<and>
   \<not> loggingEventForwarderStarted (cleanupClients (pingInterval_tick logging_registry))"
  by (simp add: logging_registry_simps pingInterval_tick_def pingInterval_loop_eq
      cleanupClients_def cleanupLoggingEventForwarder_def loggingEventForwarderStarted_def
      LoggingEventForwarder_stop_def isConnected_def example_client_simps open_socket_def
      on_message_def receiveMessage_def parse_updateLogConfig try_block_def
      ServerCommand_defs incoming_def example_env_simps sendResultSuccess_def sendData_def
      socket_send_def)

subsection \<open>Events\<close>

lemma forwardEvent_simps [simp]:
  "length (clients (forwardEvent e cc)) = length (clients cc)"
  "driver (forwardEvent e cc) = driver cc"
  by (simp_all add: forwardEvent_def)

lemma forwardEvent_nth:
  "i < length (clients cc) \<Longrightarrow>
   clients (forwardEvent e cc) ! i =
     (if receiveEvents (clients cc ! i) then sendEvent e (clients cc ! i) else clients cc ! i)"
  by (simp add: forwardEvent_def)

lemma fold_forwardEvent_simps [simp]:
  "length (clients (fold forwardEvent es cc)) = length (clients cc)"
  "driver (fold forwardEvent es cc) = driver cc"
  by (induction es arbitrary: cc) simp_all

text \<open>
  Publishing a list of events changes of a session only what its socket has been sent:
  the events, in order, when the session is listening, and nothing when it is not.
\<close>

lemma fold_forwardEvent_nth:
  "i < length (clients cc) \<Longrightarrow>
   receiveEvents (clients (fold forwardEvent es cc) ! i) = receiveEvents (clients cc ! i) \<and>
   schemaVersion (clients (fold forwardEvent es cc) ! i) = schemaVersion (clients cc ! i) \<and>
   sent (socket (clients (fold forwardEvent es cc) ! i)) =
     sent (socket (clients cc ! i)) @
     (if receiveEvents (clients cc ! i) then map (\<lambda>ev. (EventMessage ev, False)) es else [])"
  by (induction es arbitrary: cc) (simp_all add: forwardEvent_nth sendEvent_def)

lemma startListening_receive:
  assumes "JSON_parse env data = Some (ParsedObject msg)"
    and "msg_command msg = ServerCommand_startListening"
  shows "receiveMessage env data c d =
     (case dumpState env d (schemaVersion c) of
        Inl e \<Rightarrow> (None, catch_block msg e c, d)
      | Inr st \<Rightarrow>
          (None,
           (sendResultSuccess (msg_messageId msg) (Result (JObject [(''state'', st)])) True c)
             \<lparr>receiveEvents := True\<rparr>, d))"
  using assms
  by (simp add: receiveMessage_def try_block_def ServerCommand_defs Let_def split: sum.split)

text \<open>
  C4. For every session that receives \<^verbatim>\<open>startListening\<close>, between events published
  before the command and events published after it. When the state dump returns, the
  session queues the success reply with the state, sent with \<^verbatim>\<open>compress\<close> on, and is
  listening afterwards; every event published after the command is delivered behind the
  reply, once and in order, and no event published before the command is: such an event
  was delivered before the reply if the session was listening already, and is never
  delivered otherwise. When the state dump throws, no snapshot has been queued and
  \<^verbatim>\<open>receiveEvents\<close> is as it was: the session gets the error reply, and the later
  events only if it was listening already.
\<close>

theorem startListening_snapshot_then_events:
  assumes "i < length (clients cc)"
    and "JSON_parse env data = Some (ParsedObject msg)"
    and "msg_command msg = ServerCommand_startListening"
  shows "(let c = clients cc ! i;
              cc1 = fold forwardEvent before cc;
              cc2 = on_message env i data cc1;
              cc3 = fold forwardEvent after cc2
          in sent (socket (clients cc1 ! i)) =
               sent (socket c) @
               (if receiveEvents c then map (\<lambda>ev. (EventMessage ev, False)) before else []) \<and>
             (case dumpState env (driver cc) (schemaVersion c) of
                Inr st \<Rightarrow>
                  sent (socket (clients cc2 ! i)) =
                    sent (socket (clients cc1 ! i)) @
                    [(ResultMessageSuccess (msg_messageId msg)
                        (Result (JObject [(''state'', st)])), True)] \<and>
                  receiveEvents (clients cc2 ! i) \<and>
                  sent (socket (clients cc3 ! i)) =
                    sent (socket (clients cc2 ! i)) @
                    map (\<lambda>ev. (EventMessage ev, False)) after
              | Inl e \<Rightarrow>
                  clients cc2 ! i = catch_block msg e (clients cc1 ! i) \<and>
                  receiveEvents (clients cc2 ! i) = receiveEvents c \<and>
                  sent (socket (clients cc3 ! i)) =
                    sent (socket (clients cc2 ! i)) @
                    (if receiveEvents c then map (\<lambda>ev. (EventMessage ev, False)) after
                     else [])))"
proof -
  define c where "c = clients cc ! i"
  define cc1 where "cc1 = fold forwardEvent before cc"
  define cc2 where "cc2 = on_message env i data cc1"
  define cc3 where "cc3 = fold forwardEvent after cc2"
  have c1: "receiveEvents (clients cc1 ! i) = receiveEvents c"
    "schemaVersion (clients cc1 ! i) = schemaVersion c"
    "sent (socket (clients cc1 ! i)) =
       sent (socket c) @
       (if receiveEvents c then map (\<lambda>ev. (EventMessage ev, False)) before else [])"
    "i < length (clients cc1)" "driver cc1 = driver cc"
    using fold_forwardEvent_nth [OF assms(1), where es = before] assms(1)
    by (simp_all add: cc1_def c_def)
  have l2: "i < length (clients cc2)"
    using c1(4) by (simp add: cc2_def on_message_def split: prod.split)
  have c3: "sent (socket (clients cc3 ! i)) =
      sent (socket (clients cc2 ! i)) @
      (if receiveEvents (clients cc2 ! i) then map (\<lambda>ev. (EventMessage ev, False)) after
       else [])"
    using fold_forwardEvent_nth [OF l2, where es = after] by (simp add: cc3_def)
  have ?thesis if d: "dumpState env (driver cc) (schemaVersion c) = Inr st" for st
  proof -
    have "receiveMessage env data (clients cc1 ! i) (driver cc1) =
        (None,
         (sendResultSuccess (msg_messageId msg) (Result (JObject [(''state'', st)])) True
            (clients cc1 ! i))\<lparr>receiveEvents := True\<rparr>, driver cc)"
      using d by (simp add: startListening_receive [OF assms(2,3)] c1)
    then have c2: "clients cc2 ! i =
        (sendResultSuccess (msg_messageId msg) (Result (JObject [(''state'', st)])) True
            (clients cc1 ! i))\<lparr>receiveEvents := True\<rparr>"
      using c1(4) by (simp add: cc2_def on_message_def)
    show ?thesis
      unfolding Let_def c_def [symmetric] cc1_def [symmetric] cc2_def [symmetric]
        cc3_def [symmetric]
      using d c1(3) c2 c3 by (simp add: sendResultSuccess_def)
  qed
  moreover have ?thesis if d: "dumpState env (driver cc) (schemaVersion c) = Inl e" for e
  proof -
    have "receiveMessage env data (clients cc1 ! i) (driver cc1) =
        (None, catch_block msg e (clients cc1 ! i), driver cc)"
      using d by (simp add: startListening_receive [OF assms(2,3)] c1)
    then have c2: "clients cc2 ! i = catch_block msg e (clients cc1 ! i)"
      using c1(4) by (simp add: cc2_def on_message_def)
    show ?thesis
      unfolding Let_def c_def [symmetric] cc1_def [symmetric] cc2_def [symmetric]
        cc3_def [symmetric]
      using d c1(1,3) c2 c3 by simp
  qed
  ultimately show ?thesis
    by (cases "dumpState env (driver cc) (schemaVersion c)") auto
qed

theorem startListening_snapshot_then_events_witness:
  "\<not> receiveEvents (clients example_registry ! 0) \<and>
   sent (socket (clients
      (fold forwardEvent [JString ''b'', JString ''c'']
         (on_message example_env 0 frame_startListening
            (fold forwardEvent [JString ''a''] example_registry))) ! 0)) =
     [(VersionMessage ''10.3.0'' ''1.23.1'' None 1 10, False),
      (ResultMessageSuccess ''4'' (Result (JObject [(''state'', JObject [])])), True),
      (EventMessage (JString ''b''), False), (EventMessage (JString ''c''), False)] \<and>
   \<not> receiveEvents (clients
      (on_message failing_dump_env 0 frame_startListening
         (fold forwardEvent [JString ''a''] example_registry)) ! 0) \<and>
   sent (socket (clients
      (fold forwardEvent [JString ''b'', JString ''c'']
         (on_message failing_dump_env 0 frame_startListening
            (fold forwardEvent [JString ''a''] example_registry))) ! 0)) =
     [(VersionMessage ''10.3.0'' ''1.23.1'' None 1 10, False),
      (ResultMessageError ''4'' ErrorCode_unknownError (Args (JObject [])), False)]"
  using startListening_snapshot_then_events [where cc = example_registry and i = 0
      and env = example_env and data = frame_startListening
      and msg = "incoming ''4'' ''startListening''"
      and before = "[JString ''a'']" and after = "[JString ''b'', JString ''c'']"]
    startListening_snapshot_then_events [where cc = example_registry and i = 0
      and env = failing_dump_env and data = frame_startListening
      and msg = "incoming ''4'' ''startListening''"
      and before = "[JString ''a'']" and after = "[JString ''b'', JString ''c'']"]
    parse_startListening
  by (simp add: Let_def example_registry_simps example_client_simps open_socket_def
      incoming_def ServerCommand_defs example_env_simps failing_dump_env_simps
      catch_block_def sendResultError_def forwardEvent_def)

subsection \<open>Renamed commands\<close>

text \<open>
  C9. The types of the incoming controller messages accept the canonical and the legacy
  spelling of the two renamed commands: \<^verbatim>\<open>removeNodeFromAllAssociations\<close> and
  \<^verbatim>\<open>removeNodeFromAllAssocations\<close> are the two commands of one interface of the union,
  \<^verbatim>\<open>isAnyOTAFirmwareUpdateInProgress\<close> and \<^verbatim>\<open>getAnyFirmwareUpdateProgress\<close> the
  two commands of another, and no other interface has any of them.
\<close>

theorem legacy_spellings_accepted:
  "accepting ControllerCommand_removeNodeFromAllAssociations =
     [IncomingCommandControllerRemoveNodeFromAllAssociations] \<and>
   accepting ControllerCommand_removeNodeFromAllAssocations =
     [IncomingCommandControllerRemoveNodeFromAllAssociations] \<and>
   accepting ControllerCommand_isAnyOTAFirmwareUpdateInProgress =
     [IncomingCommandControllerIsAnyOTAFirmwareUpdateInProgress] \<and>
   accepting ControllerCommand_getAnyFirmwareUpdateProgress =
     [IncomingCommandControllerIsAnyOTAFirmwareUpdateInProgress]"
  by (simp add: accepting_def IncomingMessageController_def)

end
